theory Spec2Isabelle
  imports Complex_Main "HOL-Library.AList" "HOL-Library.Option_ord"
begin

section \<open>Python values used by the settlement code\<close>

text \<open>
  Exceptions are values.  The first group are the Python and Django exceptions the
  modelled functions can raise.  \<open>VendorNotInOrder\<close> and \<open>EmptyCart\<close> are the names of
  the specification's error taxonomy; no path of the source raises them.
\<close>

datatype error =
    AttributeError
  | TypeError
  | ValueError
  | KeyError
  | JSONDecodeError
  | DoesNotExist
  | MultipleObjectsReturned
  | GEOSException
  | VendorNotInOrder
  | EmptyCart

subsection \<open>Decimal numbers\<close>

text \<open>
  \<open>DecimalField\<close> values are Python \<open>Decimal\<close>s: a coefficient and an exponent,
  standing for \<open>coefficient * 10 ^ exponent\<close>.  The operations below are the ones the
  source applies (\<open>+\<close>, \<open>*\<close>, \<open>/ 100\<close>, \<open>round(_, 2)\<close>, \<open>sum\<close>, \<open>str\<close>), with their
  results as the decimal module computes them while a coefficient has at most 28 digits
  (the default context precision; prices have at most 10 digits and percentages at most 4).
  Python's integer operands are converted exactly: the integer \<open>n\<close> is \<open>Decimal n 0\<close>.
  The sign of a zero is not represented.
\<close>

datatype decimal = Decimal (coefficient: int) (exponent: int)

definition dval :: "decimal \<Rightarrow> rat" where
  "dval d =
     (if 0 \<le> exponent d then of_int (coefficient d) * 10 ^ nat (exponent d)
      else of_int (coefficient d) / 10 ^ nat (- exponent d))"

definition dec_add :: "decimal \<Rightarrow> decimal \<Rightarrow> decimal" where
  "dec_add a b =
     (let m = min (exponent a) (exponent b)
      in Decimal (coefficient a * 10 ^ nat (exponent a - m)
                  + coefficient b * 10 ^ nat (exponent b - m)) m)"

definition dec_mul :: "decimal \<Rightarrow> decimal \<Rightarrow> decimal" where
  "dec_mul a b = Decimal (coefficient a * coefficient b) (exponent a + exponent b)"

text \<open>
  \<open>x / 100\<close>: the quotient is exact, and its exponent is as close to the exponent of
  \<open>x\<close> as the coefficient allows.
\<close>

definition dec_div_100 :: "decimal \<Rightarrow> decimal" where
  "dec_div_100 a =
     (if coefficient a mod 100 = 0 then Decimal (coefficient a div 100) (exponent a)
      else if coefficient a mod 10 = 0 then Decimal (coefficient a div 10) (exponent a - 1)
      else Decimal (coefficient a) (exponent a - 2))"

text \<open>
  \<open>round(x, n)\<close> on a \<open>Decimal\<close> is \<open>x.quantize(Decimal(1).scaleb(-n))\<close> under the
  context's rounding mode, \<open>ROUND_HALF_EVEN\<close>: the result has exponent \<open>-n\<close>; discarded
  digits round to the nearest coefficient, and an exact half goes to the even one.
\<close>

definition dec_round :: "decimal \<Rightarrow> nat \<Rightarrow> decimal" where
  "dec_round d n =
     (let t = - int n in
      if t \<le> exponent d then Decimal (coefficient d * 10 ^ nat (exponent d - t)) t
      else
        (let p = 10 ^ nat (t - exponent d);
             q = coefficient d div p;
             r = coefficient d mod p
         in Decimal (if 2 * r < p then q
                     else if p < 2 * r then q + 1
                     else if even q then q else q + 1) t))"

text \<open>
  Rounding to \<open>n\<close> places as the specification words it: to the nearest multiple of
  \<open>10 ^ - n\<close>, an exact half going to the even neighbour (banker's rounding).
\<close>

definition rat_round_half_even :: "rat \<Rightarrow> nat \<Rightarrow> rat" where
  "rat_round_half_even x n =
     (let y = x * 10 ^ n; f = \<lfloor>y\<rfloor>
      in (if y - of_int f < 1 / 2 then of_int f
          else if 1 / 2 < y - of_int f then of_int f + 1
          else if even f then of_int f else of_int f + 1) / 10 ^ n)"

text \<open>\<open>sum(xs)\<close> starts from the integer 0 and adds from the left.\<close>

definition py_sum :: "decimal list \<Rightarrow> decimal" where
  "py_sum xs = foldl dec_add (Decimal 0 0) xs"

subsection \<open>\<open>str\<close> of integers and decimals\<close>

fun digits :: "nat \<Rightarrow> string" where
  "digits n =
     (if n < 10 then [char_of (48 + n)]
      else digits (n div 10) @ [char_of (48 + n mod 10)])"

declare digits.simps [simp del]

definition str_int :: "int \<Rightarrow> string" where
  "str_int n = (if n < 0 then ''-'' else '''') @ digits (nat \<bar>n\<bar>)"

text \<open>
  \<open>Decimal.__str__\<close>: plain notation when the exponent is at most 0 and more than
  \<open>-6\<close> digits stand left of the point, scientific notation otherwise.
\<close>

definition str_decimal :: "decimal \<Rightarrow> string" where
  "str_decimal d =
     (let sign = (if coefficient d < 0 then ''-'' else '''');
          ds = digits (nat \<bar>coefficient d\<bar>);
          leftdigits = exponent d + int (length ds);
          dotplace = (if exponent d \<le> 0 \<and> - 6 < leftdigits then leftdigits else 1);
          intpart =
            (if dotplace \<le> 0 then ''0''
             else if int (length ds) \<le> dotplace
               then ds @ replicate (nat (dotplace - int (length ds))) CHR ''0''
             else take (nat dotplace) ds);
          fracpart =
            (if dotplace \<le> 0 then ''.'' @ replicate (nat (- dotplace)) CHR ''0'' @ ds
             else if int (length ds) \<le> dotplace then ''''
             else ''.'' @ drop (nat dotplace) ds);
          exp =
            (if leftdigits = dotplace then ''''
             else ''E'' @ (if leftdigits - dotplace < 0 then ''-'' else ''+'')
                  @ digits (nat \<bar>leftdigits - dotplace\<bar>))
      in sign @ intpart @ fracpart @ exp)"

section \<open>The cart aggregator: \<open>marketplace/context_processors.py\<close>\<close>

text \<open>
  The tables the function reads.  A cart row carries the food item its foreign key
  points to (the row \<open>FoodItem.objects.get(pk=item.fooditem.id)\<close> returns, with the
  price it has at the time of the call).  The order of a table is the order in which the
  database returns its rows when no \<open>order_by\<close> decides.
\<close>

record fooditem =
  fooditem_id :: nat
  fooditem_vendor :: int
  food_title :: string
  price :: decimal
  is_available :: bool

record cart =
  cart_user :: nat
  cart_fooditem :: fooditem
  quantity :: nat
  created_at :: nat

record tax_rule =
  tax_type :: string
  tax_percentage :: decimal
  is_active :: bool

text \<open>
  A request: the authenticated user (\<open>None\<close> for \<open>AnonymousUser\<close>), the query
  parameters and the session.  A session value is a string or Python's \<open>None\<close>.
\<close>

record request =
  user :: "nat option"
  GET :: "string \<rightharpoonup> string"
  session :: "string \<rightharpoonup> string option"

text \<open>
  The returned dictionary.  \<open>tax_dict\<close> is a Python dict (insertion ordered, one entry
  per key) from tax type to a dict from \<open>str(tax_percentage)\<close> to the tax amount.
\<close>

record cart_amounts =
  subtotal :: decimal
  tax :: decimal
  grand_total :: decimal
  tax_dict :: "(string \<times> (string \<times> decimal) list) list"

text \<open>The first loop: \<open>subtotal += fooditem.price * item.quantity\<close>.\<close>

definition cart_subtotal :: "cart list \<Rightarrow> decimal" where
  "cart_subtotal cart_items =
     foldl (\<lambda>s item. dec_add s (dec_mul (price (cart_fooditem item))
                                        (Decimal (int (quantity item)) 0)))
       (Decimal 0 0) cart_items"

text \<open>One pass of the second loop: the amount and the \<open>tax_dict.update\<close>.\<close>

definition tax_amount :: "decimal \<Rightarrow> tax_rule \<Rightarrow> decimal" where
  "tax_amount s i = dec_round (dec_div_100 (dec_mul (tax_percentage i) s)) 2"

definition tax_update ::
  "decimal \<Rightarrow> (string \<times> (string \<times> decimal) list) list \<Rightarrow> tax_rule
   \<Rightarrow> (string \<times> (string \<times> decimal) list) list" where
  "tax_update s d i =
     AList.update (tax_type i) [(str_decimal (tax_percentage i), tax_amount s i)] d"

text \<open>\<open>sum(x for key in tax_dict.values() for x in key.values())\<close>.\<close>

definition tax_total :: "(string \<times> (string \<times> decimal) list) list \<Rightarrow> decimal" where
  "tax_total d = py_sum (concat (map (\<lambda>kv. map snd (snd kv)) d))"

definition get_cart_amounts :: "cart list \<Rightarrow> tax_rule list \<Rightarrow> request \<Rightarrow> cart_amounts" where
  "get_cart_amounts carts taxes request =
     (case user request of
        None \<Rightarrow>
          \<lparr>subtotal = Decimal 0 0, tax = Decimal 0 0, grand_total = Decimal 0 0,
           tax_dict = []\<rparr>
      | Some u \<Rightarrow>
          (let cart_items = filter (\<lambda>c. cart_user c = u) carts;
               s = cart_subtotal cart_items;
               get_tax = filter is_active taxes;
               d = foldl (tax_update s) [] get_tax;
               t = tax_total d
           in \<lparr>subtotal = s, tax = t, grand_total = dec_add s t, tax_dict = d\<rparr>))"

section \<open>JSON text: \<open>json.loads\<close>\<close>

text \<open>
  The ledger is stored as text and read back with \<open>json.loads\<close>.  The documents the
  settlement code writes and reads consist of objects and strings only, and this is the
  part of JSON modelled here.  A call of a modelled function has one of three outcomes:
  it returns a value, it raises an exception, or it leaves the modelled part (the text
  holds a number, an array, a literal name or a \<open>\u\<close> escape), about which nothing is
  said.
\<close>

datatype json = JStr string | JObj "(string \<times> json) list"

datatype 'a outcome = Returns 'a | Raises error | Unmodelled

definition is_ws :: "char \<Rightarrow> bool" where
  "is_ws c = (c = CHR '' '' \<or> c = CHR 0x09 \<or> c = CHR 0x0A \<or> c = CHR 0x0D)"

definition skip_ws :: "string \<Rightarrow> string" where
  "skip_ws s = dropWhile is_ws s"

text \<open>The escapes of one character after a backslash (\<open>BACKSLASH\<close> in the decoder).\<close>

definition unescape :: "char \<Rightarrow> char option" where
  "unescape e =
     (if e = CHR 0x22 then Some (CHR 0x22)
      else if e = CHR 0x5C then Some (CHR 0x5C)
      else if e = CHR ''/'' then Some (CHR ''/'')
      else if e = CHR ''b'' then Some (CHR 0x08)
      else if e = CHR ''f'' then Some (CHR 0x0C)
      else if e = CHR ''n'' then Some (CHR 0x0A)
      else if e = CHR ''r'' then Some (CHR 0x0D)
      else if e = CHR ''t'' then Some (CHR 0x09)
      else None)"

definition prepend :: "char \<Rightarrow> (string \<times> string) outcome \<Rightarrow> (string \<times> string) outcome" where
  "prepend c r = (case r of Returns (x, rest) \<Rightarrow> Returns (c # x, rest) | _ \<Rightarrow> r)"

text \<open>
  \<open>scanstring\<close>, started after the opening quote: the content up to the closing quote
  and the text after it.  A control character, an unknown escape and the end of the text
  are errors.
\<close>

fun scanstring :: "string \<Rightarrow> (string \<times> string) outcome" where
  "scanstring [] = Raises JSONDecodeError"
| "scanstring (c # cs) =
     (if c = CHR 0x22 then Returns ([], cs)
      else if c = CHR 0x5C then
        (case cs of
           [] \<Rightarrow> Raises JSONDecodeError
         | e # cs' \<Rightarrow>
             if e = CHR ''u'' then Unmodelled
             else (case unescape e of
                     None \<Rightarrow> Raises JSONDecodeError
                   | Some x \<Rightarrow> prepend x (scanstring cs')))
      else if (of_char c :: nat) < 32 then Raises JSONDecodeError
      else prepend c (scanstring cs))"

text \<open>\<open>dict(pairs)\<close>: a repeated key keeps its first position and takes the last value.\<close>

definition dict_update :: "('k \<times> 'v) list \<Rightarrow> ('k \<times> 'v) list \<Rightarrow> ('k \<times> 'v) list" where
  "dict_update d pairs = foldl (\<lambda>d kv. AList.update (fst kv) (snd kv) d) d pairs"

text \<open>
  The scanner.  \<open>parse_value\<close> reads one value at the start of the text;
  \<open>parse_members\<close> reads the members of an object from the position where a key is
  expected, up to and including the closing brace.  The two length tests make the
  recursion well-founded; a scanner only moves forward, so both always hold.
\<close>

fun parse_value :: "string \<Rightarrow> (json \<times> string) outcome"
  and parse_members :: "string \<Rightarrow> ((string \<times> json) list \<times> string) outcome" where
  "parse_value [] = Raises JSONDecodeError"
| "parse_value (c # r) =
     (if c = CHR 0x22 then
        (case scanstring r of
           Returns (x, r') \<Rightarrow> Returns (JStr x, r')
         | Raises e \<Rightarrow> Raises e
         | Unmodelled \<Rightarrow> Unmodelled)
      else if c = CHR ''{'' then
        (case skip_ws r of
           [] \<Rightarrow> Raises JSONDecodeError
         | c' # r' \<Rightarrow>
             if c' = CHR ''}'' then Returns (JObj [], r')
             else (case parse_members r of
                     Returns (pairs, r'') \<Rightarrow> Returns (JObj (dict_update [] pairs), r'')
                   | Raises e \<Rightarrow> Raises e
                   | Unmodelled \<Rightarrow> Unmodelled))
      else if c \<in> set ''[-0123456789tfnNI'' then Unmodelled
      else Raises JSONDecodeError)"
| "parse_members s =
     (case skip_ws s of
        [] \<Rightarrow> Raises JSONDecodeError
      | q # s1 \<Rightarrow>
          if q \<noteq> CHR 0x22 then Raises JSONDecodeError
          else
            (case scanstring s1 of
               Raises e \<Rightarrow> Raises e
             | Unmodelled \<Rightarrow> Unmodelled
             | Returns (key, s2) \<Rightarrow>
                 (case skip_ws s2 of
                    [] \<Rightarrow> Raises JSONDecodeError
                  | colon # s3 \<Rightarrow>
                      if colon \<noteq> CHR '':'' then Raises JSONDecodeError
                      else if \<not> length (skip_ws s3) < length s then Raises JSONDecodeError
                      else
                        (case parse_value (skip_ws s3) of
                           Raises e \<Rightarrow> Raises e
                         | Unmodelled \<Rightarrow> Unmodelled
                         | Returns (v, s4) \<Rightarrow>
                             (case skip_ws s4 of
                                [] \<Rightarrow> Raises JSONDecodeError
                              | d # s5 \<Rightarrow>
                                  if d = CHR ''}'' then Returns ([(key, v)], s5)
                                  else if d \<noteq> CHR '','' then Raises JSONDecodeError
                                  else if \<not> length s5 < length s then Raises JSONDecodeError
                                  else
                                    (case parse_members s5 of
                                       Returns (pairs, s6) \<Rightarrow> Returns ((key, v) # pairs, s6)
                                     | Raises e \<Rightarrow> Raises e
                                     | Unmodelled \<Rightarrow> Unmodelled))))))"

declare parse_value.simps [simp del] parse_members.simps [simp del]

text \<open>
  \<open>json.loads(s)\<close>: white space, one value, white space, and nothing more
  (\<open>Extra data\<close> otherwise).
\<close>

definition json_loads :: "string \<Rightarrow> json outcome" where
  "json_loads s =
     (case parse_value (skip_ws s) of
        Returns (v, r) \<Rightarrow> if skip_ws r = [] then Returns v else Raises JSONDecodeError
      | Raises e \<Rightarrow> Raises e
      | Unmodelled \<Rightarrow> Unmodelled)"

section \<open>Per-vendor totals of a placed order: \<open>orders/utils.py\<close>, \<open>orders/models.py\<close>\<close>

text \<open>
  The decoder computes with Python floats.  Their arithmetic belongs to the interpreter
  and is a parameter here: \<open>float_of_str\<close> is \<open>float(s)\<close> on a string (\<open>None\<close> when it
  raises \<open>ValueError\<close>), \<open>float_add\<close> is \<open>+\<close>, and \<open>float_zero\<close> is the float of the
  integer \<open>0\<close> the accumulators start from.
\<close>

record 'f float_ops =
  float_of_str :: "string \<Rightarrow> 'f option"
  float_add :: "'f \<Rightarrow> 'f \<Rightarrow> 'f"
  float_zero :: 'f

datatype order_status = New | Accepted | Completed | Cancelled

record order =
  order_number :: string
  order_user :: "nat option"
  order_vendors :: "int list"
  total_data :: "string option"
  status :: order_status
  is_ordered :: bool

text \<open>The returned dictionary, keys \<open>subtotal\<close>, \<open>tax_dict\<close> and \<open>grand_total\<close>.\<close>

record 'f vendor_totals =
  v_subtotal :: 'f
  v_tax_dict :: "(string \<times> json) list"
  v_grand_total :: 'f

text \<open>\<open>val.replace("'", '"')\<close>.\<close>

definition replace_quotes :: "string \<Rightarrow> string" where
  "replace_quotes val = map (\<lambda>c. if c = CHR 0x27 then CHR 0x22 else c) val"

text \<open>\<open>for j in val[i]: tax += float(val[i][j])\<close>, for a dictionary \<open>val[i]\<close>.\<close>

fun tax_of_rates :: "'f float_ops \<Rightarrow> (string \<times> json) list \<Rightarrow> 'f \<Rightarrow> 'f outcome" where
  "tax_of_rates F [] tax_acc = Returns tax_acc"
| "tax_of_rates F ((j, x) # rest) tax_acc =
     (case x of
        JObj _ \<Rightarrow> Raises TypeError
      | JStr a \<Rightarrow>
          (case float_of_str F a of
             None \<Rightarrow> Raises ValueError
           | Some y \<Rightarrow> tax_of_rates F rest (float_add F tax_acc y)))"

text \<open>
  \<open>for i in val\<close>.  When \<open>val[i]\<close> is a string the inner loop runs over its characters
  and \<open>val[i][j]\<close> raises \<open>TypeError\<close>, unless the string is empty.
\<close>

fun tax_of_types :: "'f float_ops \<Rightarrow> (string \<times> json) list \<Rightarrow> 'f \<Rightarrow> 'f outcome" where
  "tax_of_types F [] tax_acc = Returns tax_acc"
| "tax_of_types F ((i, vi) # rest) tax_acc =
     (case vi of
        JStr s \<Rightarrow> if s = [] then tax_of_types F rest tax_acc else Raises TypeError
      | JObj rates \<Rightarrow>
          (case tax_of_rates F rates tax_acc of
             Returns tax_acc' \<Rightarrow> tax_of_types F rest tax_acc'
           | Raises e \<Rightarrow> Raises e
           | Unmodelled \<Rightarrow> Unmodelled))"

text \<open>
  \<open>for key, val in data.items()\<close>, on the accumulators \<open>subtotal\<close>, \<open>tax\<close> and
  \<open>tax_dict\<close>.  \<open>tax_dict.update\<close> of a string raises \<open>ValueError\<close> unless the string is
  empty.
\<close>

fun vendor_items ::
  "'f float_ops \<Rightarrow> (string \<times> json) list \<Rightarrow> 'f \<times> 'f \<times> (string \<times> json) list
   \<Rightarrow> ('f \<times> 'f \<times> (string \<times> json) list) outcome" where
  "vendor_items F [] acc = Returns acc"
| "vendor_items F ((key, val) # rest) (subtotal_acc, tax_acc, tax_dict_acc) =
     (case float_of_str F key of
        None \<Rightarrow> Raises ValueError
      | Some x \<Rightarrow>
          (case val of
             JObj _ \<Rightarrow> Raises AttributeError
           | JStr text \<Rightarrow>
               (case json_loads (replace_quotes text) of
                  Raises e \<Rightarrow> Raises e
                | Unmodelled \<Rightarrow> Unmodelled
                | Returns (JStr s) \<Rightarrow>
                    if s = [] then vendor_items F rest (float_add F subtotal_acc x, tax_acc, tax_dict_acc)
                    else Raises ValueError
                | Returns (JObj val') \<Rightarrow>
                    (case tax_of_types F val' tax_acc of
                       Raises e \<Rightarrow> Raises e
                     | Unmodelled \<Rightarrow> Unmodelled
                     | Returns tax_acc' \<Rightarrow>
                         vendor_items F rest
                           (float_add F subtotal_acc x, tax_acc', dict_update tax_dict_acc val')))))"

text \<open>The part both functions share, from \<open>data = total_data.get(str(vendor_id))\<close> on.\<close>

definition vendor_context ::
  "'f float_ops \<Rightarrow> 'f \<times> 'f \<times> (string \<times> json) list \<Rightarrow> 'f vendor_totals" where
  "vendor_context F acc =
     (case acc of (subtotal_acc, tax_acc, tax_dict_acc) \<Rightarrow>
        \<lparr>v_subtotal = subtotal_acc, v_tax_dict = tax_dict_acc,
         v_grand_total = float_add F subtotal_acc tax_acc\<rparr>)"

definition totals_of_document ::
  "'f float_ops \<Rightarrow> json \<Rightarrow> string \<Rightarrow> ('f \<times> 'f \<times> (string \<times> json) list) outcome" where
  "totals_of_document F doc vendor_key =
     (case doc of
        JStr _ \<Rightarrow> Raises AttributeError
      | JObj entries \<Rightarrow>
          (case map_of entries vendor_key of
             None \<Rightarrow> Raises AttributeError
           | Some (JStr _) \<Rightarrow> Raises AttributeError
           | Some (JObj data) \<Rightarrow>
               vendor_items F data (float_zero F, float_zero F, [])))"

text \<open>
  \<open>order_total_by_vendor(order, vendor_id)\<close>.  \<open>json.loads(None)\<close> raises
  \<open>TypeError\<close>; \<open>get\<close> on a string, and \<open>items\<close> on \<open>None\<close> or on a string, raise
  \<open>AttributeError\<close>.
\<close>

definition order_total_by_vendor ::
  "'f float_ops \<Rightarrow> order \<Rightarrow> int \<Rightarrow> 'f vendor_totals outcome" where
  "order_total_by_vendor F order vendor_id =
     (case total_data order of
        None \<Rightarrow> Raises TypeError
      | Some text \<Rightarrow>
          (case json_loads text of
             Raises e \<Rightarrow> Raises e
           | Unmodelled \<Rightarrow> Unmodelled
           | Returns doc \<Rightarrow>
               (case totals_of_document F doc (str_int vendor_id) of
                  Raises e \<Rightarrow> Raises e
                | Unmodelled \<Rightarrow> Unmodelled
                | Returns acc \<Rightarrow> Returns (vendor_context F acc))))"

text \<open>
  \<open>Order.get_total_by_vendor(self)\<close> takes no vendor: it reads the module variable
  \<open>request_object\<close>, which the middleware sets to the request being served (it is the
  string \<open>""\<close> before the first request, here \<open>None\<close>), and looks up the vendor of that
  request's user.  A vendor row has its primary key \<open>id\<close> (\<open>vendor_pk\<close>), the key
  of its user and whether that user is active, and the location of its profile.
\<close>

record vendor =
  vendor_pk :: int
  vendor_user :: nat
  vendor_name :: string
  is_approved :: bool
  user_is_active :: bool
  location :: "(rat \<times> rat) option"

definition request_object_middleware :: "request option \<Rightarrow> request \<Rightarrow> request option" where
  "request_object_middleware request_object request = Some request"


section \<open>Views: \<open>marketplace/views.py\<close> and \<open>core/views.py\<close>\<close>

record user_profile =
  profile_user :: nat
  profile_address :: string
  profile_country :: string
  profile_state :: string
  profile_city :: string
  profile_pin_code :: string

record db =
  carts :: "cart list"
  taxes :: "tax_rule list"
  fooditems :: "fooditem list"
  vendors :: "vendor list"
  orders :: "order list"
  user_profiles :: "user_profile list"

text \<open>A response redirects to a named URL or renders a template with its context.\<close>

datatype 'a response = Redirect string | Render string 'a

subsection \<open>\<open>checkout\<close>\<close>

text \<open>
  The view only reads the database; it is written as a state transformer so that this
  can be stated.  \<open>login_required\<close> sends an anonymous user to the login page.  The
  context of the page is the profile the form's initial values come from, and the cart
  rows ordered by \<open>created_at\<close>.
\<close>

definition checkout :: "db \<Rightarrow> request \<Rightarrow> db \<times> (user_profile \<times> cart list) response outcome" where
  "checkout d request =
     (case user request of
        None \<Rightarrow> (d, Returns (Redirect ''login''))
      | Some u \<Rightarrow>
          (let cart_items = sort_key created_at (filter (\<lambda>c. cart_user c = u) (carts d));
               cart_count = length cart_items
           in if cart_count \<le> 0 then (d, Returns (Redirect ''marketplace''))
              else
                (case filter (\<lambda>p. profile_user p = u) (user_profiles d) of
                   [] \<Rightarrow> (d, Raises DoesNotExist)
                 | _ # _ # _ \<Rightarrow> (d, Raises MultipleObjectsReturned)
                 | [user_profile] \<Rightarrow>
                     (d, Returns (Render ''marketplace/checkout.html''
                                    (user_profile, cart_items))))))"

subsection \<open>Vendor discovery\<close>

text \<open>
  Geometry is computed by GEOS, PostGIS and Python floats, and is a parameter:
  \<open>geos_point lng lat\<close> is \<open>GEOSGeometry("POINT(lng lat)")\<close> (\<open>None\<close> when it raises),
  \<open>metres_of_km r\<close> is \<open>D(km=r).m\<close> for the string \<open>r\<close> (\<open>None\<close> when \<open>float(r)\<close> raises),
  \<open>distance_m\<close> is the distance the database computes between two points, in metres,
  and \<open>kms_of_m m\<close> is \<open>round(Distance(m=m).km, 1)\<close>.  Numbers are given by their values.
\<close>

record geo_ops =
  geos_point :: "string \<Rightarrow> string \<Rightarrow> (rat \<times> rat) option"
  metres_of_km :: "string \<Rightarrow> rat option"
  distance_m :: "rat \<times> rat \<Rightarrow> rat \<times> rat \<Rightarrow> rat"
  kms_of_m :: "rat \<Rightarrow> rat"

text \<open>
  A listed vendor, with the annotations \<open>distance\<close> and \<open>kms\<close> when the query computed
  them.
\<close>

record listing =
  listed :: vendor
  distance :: "rat option"
  kms :: "rat option"




text \<open>
  \<open>location__distance_lte=(pnt, D(m=radius))\<close>, \<open>annotate(distance=...)\<close>,
  \<open>order_by("distance")\<close> and the loop that sets \<open>kms\<close>.  A vendor without a location
  never matches.  Rows at the same distance stay in the order of the table.
\<close>

definition within_radius :: "geo_ops \<Rightarrow> rat \<times> rat \<Rightarrow> rat \<Rightarrow> vendor \<Rightarrow> bool" where
  "within_radius G pnt radius v =
     (case location v of None \<Rightarrow> False | Some l \<Rightarrow> distance_m G l pnt \<le> radius)"

definition annotate :: "geo_ops \<Rightarrow> rat \<times> rat \<Rightarrow> vendor \<Rightarrow> listing" where
  "annotate G pnt v =
     (case location v of
        None \<Rightarrow> \<lparr>listed = v, distance = None, kms = None\<rparr>
      | Some l \<Rightarrow>
          \<lparr>listed = v, distance = Some (distance_m G l pnt),
           kms = Some (kms_of_m G (distance_m G l pnt))\<rparr>)"

definition nearby :: "geo_ops \<Rightarrow> rat \<times> rat \<Rightarrow> rat \<Rightarrow> vendor list \<Rightarrow> listing list" where
  "nearby G pnt radius vs =
     sort_key distance (map (annotate G pnt) (filter (within_radius G pnt radius) vs))"

definition plain :: "vendor \<Rightarrow> listing" where
  "plain v = \<lparr>listed = v, distance = None, kms = None\<rparr>"



text \<open>
  \<open>get_or_set_current_location\<close>: the longitude and latitude of the session, or those
  of the query, which it then stores in the session.
\<close>

definition get_or_set_current_location ::
  "request \<Rightarrow> request \<times> (string option \<times> string option) option outcome" where
  "get_or_set_current_location request =
     (case session request ''lat'' of
        Some lat \<Rightarrow>
          (case session request ''lng'' of
             None \<Rightarrow> (request, Raises KeyError)
           | Some lng \<Rightarrow> (request, Returns (Some (lng, lat))))
      | None \<Rightarrow>
          (case GET request ''lat'' of
             Some lat \<Rightarrow>
               (let lng = GET request ''lng''
                in (request\<lparr>session := (session request)(''lat'' \<mapsto> Some lat, ''lng'' \<mapsto> lng)\<rparr>,
                    Returns (Some (lng, Some lat))))
           | None \<Rightarrow> (request, Returns None)))"

text \<open>\<open>"%s" % x\<close> for a string or \<open>None\<close>.\<close>

definition format_s :: "string option \<Rightarrow> string" where
  "format_s x = (case x of None \<Rightarrow> ''None'' | Some s \<Rightarrow> s)"

text \<open>
  \<open>home\<close>.  The location is looked up twice, for the test and for the point; the context
  is \<open>vendors\<close>.
\<close>

definition home :: "geo_ops \<Rightarrow> db \<Rightarrow> request \<Rightarrow> request \<times> listing list response outcome" where
  "home G d request =
     (case get_or_set_current_location request of
        (request1, Raises e) \<Rightarrow> (request1, Raises e)
      | (request1, Unmodelled) \<Rightarrow> (request1, Unmodelled)
      | (request1, Returns None) \<Rightarrow>
          (request1,
           Returns (Render ''home.html''
                      (map plain (take 8 (filter (\<lambda>v. is_approved v \<and> user_is_active v)
                                            (vendors d))))))
      | (request1, Returns (Some _)) \<Rightarrow>
          (case get_or_set_current_location request1 of
             (request2, Raises e) \<Rightarrow> (request2, Raises e)
           | (request2, Unmodelled) \<Rightarrow> (request2, Unmodelled)
           | (request2, Returns None) \<Rightarrow> (request2, Raises TypeError)
           | (request2, Returns (Some (lng, lat))) \<Rightarrow>
               (case geos_point G (format_s lng) (format_s lat) of
                  None \<Rightarrow> (request2, Raises GEOSException)
                | Some pnt \<Rightarrow>
                    (request2,
                     Returns (Render ''home.html'' (nearby G pnt 1000000 (vendors d)))))))"

section \<open>Example data\<close>

definition cgst9 :: tax_rule where
  "cgst9 = \<lparr>tax_type = ''CGST'', tax_percentage = Decimal 900 (- 2), is_active = True\<rparr>"

definition sgst7 :: tax_rule where
  "sgst7 = \<lparr>tax_type = ''SGST'', tax_percentage = Decimal 700 (- 2), is_active = True\<rparr>"

definition cgst5 :: tax_rule where
  "cgst5 = \<lparr>tax_type = ''CGST'', tax_percentage = Decimal 500 (- 2), is_active = True\<rparr>"

definition burger :: fooditem where
  "burger = \<lparr>fooditem_id = 1, fooditem_vendor = 1, food_title = ''Burger'',
              price = Decimal 10000 (- 2), is_available = True\<rparr>"

definition candy :: fooditem where
  "candy = \<lparr>fooditem_id = 2, fooditem_vendor = 2, food_title = ''Candy'',
             price = Decimal 50 (- 2), is_available = True\<rparr>"

definition customer :: request where
  "customer = \<lparr>user = Some 7, GET = Map.empty, session = Map.empty\<rparr>"

definition burger_line :: cart where
  "burger_line = \<lparr>cart_user = 7, cart_fooditem = burger, quantity = 1, created_at = 1\<rparr>"

definition candy_line :: cart where
  "candy_line = \<lparr>cart_user = 7, cart_fooditem = candy, quantity = 1, created_at = 2\<rparr>"

text \<open>
  A stand-in for the interpreter's floats in the examples: a float is the text of the
  expression that computes it, so that the order of the additions stays visible.
\<close>

definition symbolic_floats :: "string float_ops" where
  "symbolic_floats =
     \<lparr>float_of_str = (\<lambda>s. if s = [] then None else Some s),
      float_add = (\<lambda>a b. ''('' @ a @ '' + '' @ b @ '')''),
      float_zero = ''0''\<rparr>"

definition placed_order :: order where
  \<open>placed_order =
     \<lparr>order_number = ''202211031'', order_user = Some 7, order_vendors = [1],
      total_data = Some ''{"1": {"100.00": "{'CGST': {'9.00': '9.00'}, 'SGST': {'7.00': '7.00'}}"}}'',
      status = New, is_ordered = True\<rparr>\<close>


definition truck :: vendor where
  "truck = \<lparr>vendor_pk = 1, vendor_user = 3, vendor_name = ''Taco Truck'', is_approved = True,
             user_is_active = True, location = Some (3, 0)\<rparr>"

definition empty_db :: db where
  "empty_db = \<lparr>carts = [], taxes = [cgst9, sgst7], fooditems = [burger, candy],
               vendors = [], orders = [], user_profiles = []\<rparr>"

text \<open>
  A stand-in for the geometry in the examples: coordinates and radii are whole numbers of
  kilometres on a grid, and a distance is the sum of the differences.
\<close>

definition nat_of_digits :: "string \<Rightarrow> nat option" where
  "nat_of_digits s =
     (if s = [] \<or> \<not> list_all (\<lambda>c. 48 \<le> (of_char c :: nat) \<and> (of_char c :: nat) \<le> 57) s then None
      else Some (foldl (\<lambda>n c. 10 * n + (of_char c - 48)) 0 s))"

definition grid_geo :: geo_ops where
  "grid_geo =
     \<lparr>geos_point = (\<lambda>lng lat.
        case (nat_of_digits lng, nat_of_digits lat) of
          (Some x, Some y) \<Rightarrow> Some (of_nat x, of_nat y)
        | _ \<Rightarrow> None),
      metres_of_km = (\<lambda>r. map_option (\<lambda>k. 1000 * of_nat k) (nat_of_digits r)),
      distance_m = (\<lambda>p q. 1000 * (\<bar>fst p - fst q\<bar> + \<bar>snd p - snd q\<bar>)),
      kms_of_m = (\<lambda>m. m / 1000)\<rparr>"

definition wagon :: vendor where
  "wagon = \<lparr>vendor_pk = 2, vendor_user = 4, vendor_name = ''Waffle Wagon'', is_approved = True,
             user_is_active = True, location = Some (0, 3)\<rparr>"

definition newcomer :: vendor where
  "newcomer = \<lparr>vendor_pk = 3, vendor_user = 5, vendor_name = ''Noodle Cart'', is_approved = False,
             user_is_active = True, location = Some (1, 0)\<rparr>"

definition town :: db where
  "town = \<lparr>carts = [], taxes = [cgst9, sgst7], fooditems = [burger, candy],
            vendors = [wagon, truck, newcomer], orders = [], user_profiles = []\<rparr>"


definition located_request :: request where
  "located_request =
     \<lparr>user = None, GET = Map.empty, session = [''lat'' \<mapsto> Some ''0'', ''lng'' \<mapsto> Some ''0'']\<rparr>"

lemmas example_defs =
  cgst9_def sgst7_def cgst5_def burger_def candy_def customer_def burger_line_def
  candy_line_def

section \<open>Decimal arithmetic is exact\<close>

lemma dval_powi: "dval d = of_int (coefficient d) * 10 powi (exponent d)"
  by (simp add: dval_def power_int_def field_simps)


lemma dval_mul: "dval (dec_mul a b) = dval a * dval b"
  by (simp add: dval_powi dec_mul_def power_int_add)


lemma dval_div_100: "dval (dec_div_100 a) = dval a / 100"
proof -
  have p1: "(10::rat) powi (exponent a - 1) = 10 powi exponent a / 10"
    by (simp add: power_int_diff)
  have p2: "(10::rat) powi (exponent a - 2) = 10 powi exponent a / 100"
    by (simp add: power_int_diff)
  consider (hundreds) "coefficient a mod 100 = 0"
    | (tens) "coefficient a mod 100 \<noteq> 0" "coefficient a mod 10 = 0"
    | (units) "coefficient a mod 100 \<noteq> 0" "coefficient a mod 10 \<noteq> 0" by blast
  then show ?thesis
  proof cases
    case hundreds
    then have "100 dvd coefficient a" by presburger
    then have "(of_int (coefficient a div 100) :: rat) = of_int (coefficient a) / 100"
      by (auto elim!: dvdE)
    with hundreds show ?thesis by (simp add: dec_div_100_def dval_powi)
  next
    case tens
    then have "10 dvd coefficient a" by presburger
    then have "(of_int (coefficient a div 10) :: rat) = of_int (coefficient a) / 10"
      by (auto elim!: dvdE)
    with tens show ?thesis by (simp add: dec_div_100_def dval_powi p1)
  next
    case units
    then show ?thesis by (simp add: dec_div_100_def dval_powi p2)
  qed
qed

lemma dval_round: "dval (dec_round d n) = rat_round_half_even (dval d) n"
proof (cases "- int n \<le> exponent d")
  case True
  define k where "k = nat (exponent d + int n)"
  have e: "exponent d = int k - int n" using True by (simp add: k_def)
  have y: "dval d * 10 ^ n = of_int (coefficient d * 10 ^ k)"
    by (simp add: dval_powi e power_int_diff)
  have l: "dval (dec_round d n) = of_int (coefficient d * 10 ^ k) / 10 ^ n"
    using True by (simp add: dec_round_def dval_powi k_def power_int_minus_divide)
  show ?thesis
    unfolding l rat_round_half_even_def y Let_def by simp
next
  case False
  define k where "k = nat (- int n - exponent d)"
  define p :: int where "p = 10 ^ k"
  define c where "c = coefficient d"
  have ppos: "0 < p" by (simp add: p_def)
  have e: "exponent d = - int n - int k" using False by (simp add: k_def)
  have y: "dval d * 10 ^ n = of_int c / of_int p"
    by (simp add: dval_powi e power_int_diff power_int_minus_divide c_def p_def)
  have f: "\<lfloor>(of_int c :: rat) / of_int p\<rfloor> = c div p"
    by (rule floor_divide_of_int_eq)
  have fr: "(of_int c :: rat) / of_int p - of_int (c div p) = of_int (c mod p) / of_int p"
    using ppos by (simp add: field_simps flip: of_int_mult of_int_add)
  have lt0: "(rat_of_int (2 * (c mod p)) < rat_of_int p) = (2 * (c mod p) < p)"
    by (rule of_int_less_iff)
  have gt0: "(rat_of_int p < rat_of_int (2 * (c mod p))) = (p < 2 * (c mod p))"
    by (rule of_int_less_iff)
  have lt: "(of_int (c mod p) / of_int p < (1::rat) / 2) = (2 * (c mod p) < p)"
    using ppos lt0 by (simp add: field_simps)
  have gt: "((1::rat) / 2 < of_int (c mod p) / of_int p) = (p < 2 * (c mod p))"
    using ppos gt0 by (simp add: field_simps)
  have l: "dval (dec_round d n) =
     of_int (if 2 * (c mod p) < p then c div p
             else if p < 2 * (c mod p) then c div p + 1
             else if even (c div p) then c div p else c div p + 1) / 10 ^ n"
    using False
    by (simp add: dec_round_def Let_def dval_powi k_def p_def c_def power_int_minus_divide)
  show ?thesis
    unfolding l rat_round_half_even_def y Let_def f fr lt gt by simp
qed


section \<open>The tax dictionary\<close>

lemma tax_update_other:
  "t \<noteq> tax_type i \<Longrightarrow> map_of (tax_update s d i) t = map_of d t"
  by (simp add: tax_update_def update_conv')

lemma tax_update_same:
  "map_of (tax_update s d i) (tax_type i) =
     Some [(str_decimal (tax_percentage i), tax_amount s i)]"
  by (simp add: tax_update_def update_conv')

lemma foldl_tax_update_other:
  "t \<notin> tax_type ` set post \<Longrightarrow> map_of (foldl (tax_update s) d post) t = map_of d t"
  by (induction post arbitrary: d) (auto simp: tax_update_other)

lemma foldl_tax_update_last:
  assumes "tax_type r \<notin> tax_type ` set post"
  shows "map_of (foldl (tax_update s) d (pre @ r # post)) (tax_type r) =
           Some [(str_decimal (tax_percentage r), tax_amount s r)]"
  using assms by (simp add: foldl_tax_update_other tax_update_same)

lemma foldl_tax_update_distinct:
  "distinct (map fst d) \<Longrightarrow> distinct (map fst (foldl (tax_update s) d rs))"
  by (induction rs arbitrary: d) (auto simp: tax_update_def distinct_update)


lemma distinct_lookup_filter:
  "distinct (map fst d) \<Longrightarrow> map_of d t = Some v \<Longrightarrow> filter (\<lambda>kv. fst kv = t) d = [(t, v)]"
proof (induction d)
  case Nil
  then show ?case by simp
next
  case (Cons a d)
  show ?case
  proof (cases "fst a = t")
    case True
    with Cons.prems have "t \<notin> fst ` set d" "snd a = v" by auto
    then have "filter (\<lambda>kv. fst kv = t) d = []" by (auto simp: filter_empty_conv)
    with True \<open>snd a = v\<close> show ?thesis by (cases a) auto
  next
    case False
    with Cons show ?thesis by auto
  qed
qed

lemma get_cart_amounts_authenticated:
  assumes "user request = Some u"
  shows "tax_dict (get_cart_amounts cs ts request) =
           foldl (tax_update (subtotal (get_cart_amounts cs ts request))) []
             (filter is_active ts)"
    and "subtotal (get_cart_amounts cs ts request) =
           cart_subtotal (filter (\<lambda>c. cart_user c = u) cs)"
    and "tax (get_cart_amounts cs ts request) =
           tax_total (tax_dict (get_cart_amounts cs ts request))"
    and "grand_total (get_cart_amounts cs ts request) =
           dec_add (subtotal (get_cart_amounts cs ts request))
             (tax (get_cart_amounts cs ts request))"
  using assms by (simp_all add: get_cart_amounts_def Let_def)

text \<open>
  C7.  When two active tax rules have the same type, the breakdown holds exactly one
  entry for that type, and it is the entry of the later rule: percentage and amount of
  the earlier rule are overwritten.
\<close>

theorem duplicate_tax_type_last_write_wins:
  assumes "user request = Some u"
    and "filter is_active ts = pre @ r1 # mid @ r2 # post"
    and "tax_type r1 = tax_type r2"
    and "tax_type r2 \<notin> tax_type ` set post"
  shows "filter (\<lambda>kv. fst kv = tax_type r2) (tax_dict (get_cart_amounts cs ts request)) =
           [(tax_type r2,
             [(str_decimal (tax_percentage r2),
               tax_amount (subtotal (get_cart_amounts cs ts request)) r2)])]"
proof -
  let ?s = "subtotal (get_cart_amounts cs ts request)"
  let ?d = "tax_dict (get_cart_amounts cs ts request)"
  have d: "?d = foldl (tax_update ?s) [] ((pre @ r1 # mid) @ r2 # post)"
    using assms(1,2) by (simp add: get_cart_amounts_authenticated(1))
  have "map_of ?d (tax_type r2) = Some [(str_decimal (tax_percentage r2), tax_amount ?s r2)]"
    unfolding d using assms(4) by (rule foldl_tax_update_last)
  moreover have "distinct (map fst ?d)"
    unfolding d by (rule foldl_tax_update_distinct) simp
  ultimately show ?thesis by (rule distinct_lookup_filter [rotated])
qed

theorem duplicate_tax_type_last_write_wins_witness:
  "filter (\<lambda>kv. fst kv = ''CGST'')
     (tax_dict (get_cart_amounts [burger_line] [cgst9, cgst5] customer))
   = [(''CGST'', [(''5.00'', Decimal 500 (- 2))])]"
proof -
  have 1: "user customer = Some 7" by (simp add: customer_def)
  have 2: "filter is_active [cgst9, cgst5] = [] @ cgst9 # [] @ cgst5 # []"
    by (simp add: cgst9_def cgst5_def)
  have 3: "tax_type cgst9 = tax_type cgst5" by (simp add: cgst9_def cgst5_def)
  have 4: "tax_type cgst5 \<notin> tax_type ` set []" by simp
  have s: "subtotal (get_cart_amounts [burger_line] [cgst9, cgst5] customer)
             = Decimal 10000 (- 2)"
    by code_simp
  have a: "tax_amount (Decimal 10000 (- 2)) cgst5 = Decimal 500 (- 2)" by code_simp
  have t: "str_decimal (tax_percentage cgst5) = ''5.00''" by code_simp
  have k: "tax_type cgst5 = ''CGST''" by (simp add: cgst5_def)
  show ?thesis
    using duplicate_tax_type_last_write_wins [OF 1 2 3 4, of "[burger_line]"]
    unfolding s a t k .
qed

text \<open>
  C6.  The breakdown amount of an active tax rule (the last one of its type) is
  \<open>round(percentage * subtotal / 100, 2)\<close>: the exact quotient rounded to two places,
  an exact half going to the even neighbour (banker's rounding, the default of the
  decimal context).
\<close>

theorem tax_amount_is_rounded_half_even:
  assumes "user request = Some u"
    and "filter is_active ts = pre @ r # post"
    and "tax_type r \<notin> tax_type ` set post"
  shows "\<exists>a. map_of (tax_dict (get_cart_amounts cs ts request)) (tax_type r) =
              Some [(str_decimal (tax_percentage r), a)]
           \<and> a = dec_round (dec_div_100 (dec_mul (tax_percentage r)
                    (subtotal (get_cart_amounts cs ts request)))) 2
           \<and> dval a = rat_round_half_even
               (dval (tax_percentage r) * dval (subtotal (get_cart_amounts cs ts request)) / 100) 2"
proof -
  let ?s = "subtotal (get_cart_amounts cs ts request)"
  let ?d = "tax_dict (get_cart_amounts cs ts request)"
  have d: "?d = foldl (tax_update ?s) [] (pre @ r # post)"
    using assms(1,2) by (simp add: get_cart_amounts_authenticated(1))
  have "map_of ?d (tax_type r) = Some [(str_decimal (tax_percentage r), tax_amount ?s r)]"
    unfolding d using assms(3) by (rule foldl_tax_update_last)
  moreover have "dval (tax_amount ?s r) =
      rat_round_half_even (dval (tax_percentage r) * dval ?s / 100) 2"
    by (simp add: tax_amount_def dval_round dval_div_100 dval_mul)
  ultimately show ?thesis by (simp add: tax_amount_def)
qed

theorem tax_amount_is_rounded_half_even_witness:
  "map_of (tax_dict (get_cart_amounts [candy_line] [cgst9, cgst5] customer)) ''CGST''
     = Some [(''5.00'', Decimal 2 (- 2))]
   \<and> dval (Decimal 2 (- 2)) = rat_round_half_even (5 * (1 / 2) / 100) 2"
proof -
  have 1: "user customer = Some 7" by (simp add: customer_def)
  have 2: "filter is_active [cgst9, cgst5] = [cgst9] @ cgst5 # []"
    by (simp add: cgst9_def cgst5_def)
  have 3: "tax_type cgst5 \<notin> tax_type ` set []" by simp
  have s: "subtotal (get_cart_amounts [candy_line] [cgst9, cgst5] customer) = Decimal 50 (- 2)"
    by code_simp
  have a: "dec_round (dec_div_100 (dec_mul (tax_percentage cgst5) (Decimal 50 (- 2)))) 2
             = Decimal 2 (- 2)" by code_simp
  have t: "str_decimal (tax_percentage cgst5) = ''5.00''" by code_simp
  have k: "tax_type cgst5 = ''CGST''" by (simp add: cgst5_def)
  have p: "dval (tax_percentage cgst5) = 5" by (simp add: cgst5_def dval_def)
  have q: "dval (Decimal 50 (- 2)) = 1 / 2" by (simp add: dval_def)
  show ?thesis
    using tax_amount_is_rounded_half_even [OF 1 2 3, of "[candy_line]"]
    unfolding s a t k p q by simp
qed

section \<open>The empty cart\<close>








section \<open>Decoding the ledger\<close>






text \<open>
  C4, as the code has it.  When the vendor id is not a key of the order's ledger,
  \<open>total_data.get\<close> yields \<open>None\<close> and \<open>data.items()\<close> raises \<open>AttributeError\<close>: the
  query returns no value, and the error is not one that names the missing vendor.
\<close>

theorem absent_vendor_raises_attribute_error:
  assumes "total_data order = Some text"
    and "json_loads text = Returns (JObj entries)"
    and "str_int vendor_id \<notin> fst ` set entries"
  shows "order_total_by_vendor F order vendor_id = Raises AttributeError"
proof -
  have "map_of entries (str_int vendor_id) = None"
    using assms(3) by (simp add: map_of_eq_None_iff)
  then show ?thesis
    using assms(1,2) by (simp add: order_total_by_vendor_def totals_of_document_def)
qed

lemma placed_order_document:
  "json_loads (the (total_data placed_order)) =
     Returns (JObj [(''1'', JObj [(''100.00'',
        JStr (''{'' @ [CHR 0x27] @ ''CGST'' @ [CHR 0x27] @ '': {'' @ [CHR 0x27] @ ''9.00''
              @ [CHR 0x27] @ '': '' @ [CHR 0x27] @ ''9.00'' @ [CHR 0x27] @ ''}, ''
              @ [CHR 0x27] @ ''SGST'' @ [CHR 0x27] @ '': {'' @ [CHR 0x27] @ ''7.00''
              @ [CHR 0x27] @ '': '' @ [CHR 0x27] @ ''7.00'' @ [CHR 0x27] @ ''}}''))])])"
  by code_simp

theorem absent_vendor_raises_attribute_error_witness:
  "order_total_by_vendor symbolic_floats placed_order 2 = Raises AttributeError"
proof -
  have 1: "total_data placed_order = Some (the (total_data placed_order))"
    by (simp add: placed_order_def)
  have "str_int 2 = ''2''" by code_simp
  then have 3: "str_int 2 \<notin> fst ` set [(''1'', j)]" for j :: json
    by simp
  show ?thesis
    by (rule absent_vendor_raises_attribute_error [OF 1 placed_order_document 3])
qed

text \<open>The error for an absent vendor is not \<open>VendorNotInOrder\<close>.\<close>

theorem absent_vendor_counterexample:
  "order_total_by_vendor symbolic_floats placed_order 2 \<noteq> Raises VendorNotInOrder"
  by code_simp






section \<open>Checkout\<close>

text \<open>
  C8, as the code has it.  For an authenticated user with an empty cart, \<open>checkout\<close>
  answers with a redirect to the marketplace page and leaves the database as it is; in
  particular no order is created.  No error is raised.
\<close>

theorem checkout_empty_cart_redirects:
  assumes "user request = Some u"
    and "\<forall>c \<in> set (carts d). cart_user c \<noteq> u"
  shows "checkout d request = (d, Returns (Redirect ''marketplace''))"
proof -
  have "filter (\<lambda>c. cart_user c = u) (carts d) = []"
    using assms(2) by (simp add: filter_empty_conv)
  then show ?thesis using assms(1) by (simp add: checkout_def)
qed

theorem checkout_empty_cart_redirects_witness:
  "checkout empty_db customer = (empty_db, Returns (Redirect ''marketplace''))
   \<and> orders (fst (checkout empty_db customer)) = orders empty_db"
proof -
  have 1: "user customer = Some 7" by (simp add: customer_def)
  have 2: "\<forall>c \<in> set (carts empty_db). cart_user c \<noteq> 7" by (simp add: empty_db_def)
  show ?thesis using checkout_empty_cart_redirects [OF 1 2] by simp
qed

text \<open>The outcome of \<open>checkout\<close> on an empty cart is not an \<open>EmptyCart\<close> error.\<close>

theorem checkout_empty_cart_counterexample:
  "snd (checkout empty_db customer) \<noteq> Raises EmptyCart"
  by (simp add: checkout_def empty_db_def customer_def)

section \<open>Vendor discovery\<close>

lemma listed_annotate [simp]: "listed (annotate G pnt v) = v"
  by (simp add: annotate_def split: option.splits)

lemma set_nearby:
  "set (nearby G pnt r vs) = annotate G pnt ` {v \<in> set vs. within_radius G pnt r v}"
  by (auto simp: nearby_def)

lemma listed_nearby:
  "listed ` set (nearby G pnt r vs) = {v \<in> set vs. within_radius G pnt r v}"
  by (auto simp: set_nearby image_image)




lemma get_or_set_current_location_again:
  assumes "get_or_set_current_location request = (request1, Returns (Some loc))"
  shows "get_or_set_current_location request1 = (request1, Returns (Some loc))"
  using assms
  by (auto simp: get_or_set_current_location_def Let_def split: option.splits)

lemma home_located:
  assumes "get_or_set_current_location request = (request1, Returns (Some (lng, lat)))"
    and "geos_point G (format_s lng) (format_s lat) = Some pnt"
  shows "home G d request = (request1, Returns (Render ''home.html'' (nearby G pnt 1000000 (vendors d))))"
  using assms get_or_set_current_location_again [OF assms(1)]
  by (simp add: home_def)

text \<open>
  C10.  When the request has a location, the home page lists every vendor whose location
  is within 1000 km of it, whether approved or not and whether its user is active or not;
  without a location it lists the first eight approved vendors of active users.
\<close>

theorem home_drops_approval_filter_when_located:
  "(get_or_set_current_location request = (request1, Returns (Some (lng, lat)))
      \<and> geos_point G (format_s lng) (format_s lat) = Some pnt \<longrightarrow>
      (\<exists>rows. home G d request = (request1, Returns (Render ''home.html'' rows))
         \<and> listed ` set rows =
             {v \<in> set (vendors d). \<exists>l. location v = Some l \<and> distance_m G l pnt \<le> 1000 * 1000}))
   \<and> (get_or_set_current_location request = (request1, Returns None) \<longrightarrow>
      home G d request =
        (request1,
         Returns (Render ''home.html''
                    (map plain (take 8 (filter (\<lambda>v. is_approved v \<and> user_is_active v)
                                          (vendors d)))))))"
proof (intro conjI impI)
  assume a: "get_or_set_current_location request = (request1, Returns (Some (lng, lat)))
      \<and> geos_point G (format_s lng) (format_s lat) = Some pnt"
  then have "home G d request =
      (request1, Returns (Render ''home.html'' (nearby G pnt 1000000 (vendors d))))"
    by (simp add: home_located)
  moreover have "listed ` set (nearby G pnt 1000000 (vendors d)) =
      {v \<in> set (vendors d). \<exists>l. location v = Some l \<and> distance_m G l pnt \<le> 1000 * 1000}"
    by (auto simp: listed_nearby within_radius_def split: option.splits)
  ultimately show "\<exists>rows. home G d request = (request1, Returns (Render ''home.html'' rows))
         \<and> listed ` set rows =
             {v \<in> set (vendors d). \<exists>l. location v = Some l \<and> distance_m G l pnt \<le> 1000 * 1000}"
    by blast
next
  assume "get_or_set_current_location request = (request1, Returns None)"
  then show "home G d request =
        (request1,
         Returns (Render ''home.html''
                    (map plain (take 8 (filter (\<lambda>v. is_approved v \<and> user_is_active v)
                                          (vendors d))))))"
    by (simp add: home_def)
qed

theorem home_drops_approval_filter_when_located_witness:
  "snd (home grid_geo town located_request) =
     Returns (Render ''home.html''
       [annotate grid_geo (0, 0) newcomer, annotate grid_geo (0, 0) wagon,
        annotate grid_geo (0, 0) truck])
   \<and> listed ` set [annotate grid_geo (0, 0) newcomer, annotate grid_geo (0, 0) wagon,
                    annotate grid_geo (0, 0) truck] =
       {v \<in> set (vendors town).
          \<exists>l. location v = Some l \<and> distance_m grid_geo l (0, 0) \<le> 1000 * 1000}
   \<and> \<not> is_approved newcomer
   \<and> snd (home grid_geo town customer) = Returns (Render ''home.html'' [plain wagon, plain truck])"
proof -
  let ?rows = "[annotate grid_geo (0, 0) newcomer, annotate grid_geo (0, 0) wagon,
                annotate grid_geo (0, 0) truck]"
  note t = home_drops_approval_filter_when_located
  have 1: "get_or_set_current_location located_request =
             (located_request, Returns (Some (Some ''0'', Some ''0'')))"
    by (simp add: get_or_set_current_location_def located_request_def)
  have 2: "geos_point grid_geo (format_s (Some ''0'')) (format_s (Some ''0'')) = Some (0, 0)"
    by code_simp
  have 3: "get_or_set_current_location customer = (customer, Returns None)"
    by (simp add: get_or_set_current_location_def customer_def)
  have a: "snd (home grid_geo town located_request) = Returns (Render ''home.html'' ?rows)"
    by code_simp
  from t [of located_request located_request "Some ''0''" "Some ''0''" grid_geo "(0, 0)" town] 1 2
  obtain rows where r: "home grid_geo town located_request =
        (located_request, Returns (Render ''home.html'' rows))"
      "listed ` set rows = {v \<in> set (vendors town).
          \<exists>l. location v = Some l \<and> distance_m grid_geo l (0, 0) \<le> 1000 * 1000}"
    by blast
  from r(1) a have "rows = ?rows" by simp
  with r(2) have b: "listed ` set ?rows = {v \<in> set (vendors town).
          \<exists>l. location v = Some l \<and> distance_m grid_geo l (0, 0) \<le> 1000 * 1000}"
    by simp
  have c: "\<not> is_approved newcomer" by (simp add: newcomer_def)
  have "snd (home grid_geo town customer) =
      Returns (Render ''home.html''
         (map plain (take 8 (filter (\<lambda>v. is_approved v \<and> user_is_active v) (vendors town)))))"
    using t [of customer customer _ _ grid_geo _ town] 3 by simp
  moreover have "take 8 (filter (\<lambda>v. is_approved v \<and> user_is_active v) (vendors town)) = [wagon, truck]"
    by (simp add: town_def wagon_def truck_def newcomer_def)
  ultimately have d: "snd (home grid_geo town customer) =
      Returns (Render ''home.html'' [plain wagon, plain truck])"
    by simp
  from a b c d show ?thesis by blast
qed




end
